theory Spec2Isabelle
  imports Complex_Main
begin

section \<open>Python numbers\<close>

text \<open>
  The scrollbar computes with Python's \<^verbatim>\<open>NumberType\<close> (\<^verbatim>\<open>int\<close> or \<^verbatim>\<open>float\<close>).
  Both are embedded into the exact rationals: \<^verbatim>\<open>/\<close> is exact division, and the
  rounding error of binary floating point is outside the model. Values that the
  code keeps as integers (rectangle coordinates, the slider pad, the thickness)
  are \<^typ>\<open>int\<close>.
\<close>

datatype error = AssertionError | ZeroDivisionError

text \<open>\<^verbatim>\<open>int(x)\<close>, also what a \<^verbatim>\<open>pygame.Rect\<close> attribute does to a float: truncation
  towards zero.\<close>

definition py_int :: "rat \<Rightarrow> int" where
  "py_int q = (if 0 \<le> q then \<lfloor>q\<rfloor> else \<lceil>q\<rceil>)"

text \<open>\<^verbatim>\<open>round(x)\<close>: to the nearest integer, a tie to the even neighbour.\<close>

definition py_round :: "rat \<Rightarrow> int" where
  "py_round q =
     (let f = \<lfloor>q\<rfloor>; d = q - of_int f
      in if d < 1 / 2 then f
         else if 1 / 2 < d then f + 1
         else if even f then f else f + 1)"


text \<open>\<^verbatim>\<open>x // 2\<close> on a number: floor division, the result is again a number.\<close>

definition py_floordiv2 :: "rat \<Rightarrow> rat" where
  "py_floordiv2 q = of_int \<lfloor>q / 2\<rfloor>"

section \<open>\<^verbatim>\<open>pygame.Rect\<close>\<close>

text \<open>
  A rectangle of the pygame library: four integers. Only the operations the
  scrollbar calls are modelled, with the library's documented meaning.
  \<^verbatim>\<open>xpos\<close> and \<^verbatim>\<open>ypos\<close> stand for the attributes \<^verbatim>\<open>x\<close> (\<^verbatim>\<open>left\<close>) and \<^verbatim>\<open>y\<close> (\<^verbatim>\<open>top\<close>).
\<close>

record Rect =
  xpos :: int
  ypos :: int
  width :: int
  height :: int

text \<open>\<^verbatim>\<open>_orientation\<close>: \<^verbatim>\<open>0\<close> is horizontal, \<^verbatim>\<open>1\<close> is vertical; the value indexes the
  pairs \<^verbatim>\<open>('width', 'height')\<close>, \<^verbatim>\<open>('x', 'y')\<close> and every point.\<close>

datatype orientation = ORIENTATION_HORIZONTAL | ORIENTATION_VERTICAL

fun opposite :: "orientation \<Rightarrow> orientation" where
  "opposite ORIENTATION_HORIZONTAL = ORIENTATION_VERTICAL"
| "opposite ORIENTATION_VERTICAL = ORIENTATION_HORIZONTAL"

text \<open>\<^verbatim>\<open>point[axis]\<close>.\<close>

fun along :: "orientation \<Rightarrow> 'a \<times> 'a \<Rightarrow> 'a" where
  "along ORIENTATION_HORIZONTAL p = fst p"
| "along ORIENTATION_VERTICAL p = snd p"

definition topleft :: "Rect \<Rightarrow> int \<times> int" where
  "topleft r = (xpos r, ypos r)"



text \<open>C's integer division, which truncates towards zero.\<close>

definition c_div :: "int \<Rightarrow> int \<Rightarrow> int" where
  "c_div a b = sgn a * sgn b * (\<bar>a\<bar> div \<bar>b\<bar>)"

text \<open>\<^verbatim>\<open>rect.inflate(dx, dy)\<close>: the size grows by the arguments around the centre.\<close>

definition inflate :: "Rect \<Rightarrow> int \<Rightarrow> int \<Rightarrow> Rect" where
  "inflate r dx dy =
     \<lparr>xpos = xpos r - c_div dx 2, ypos = ypos r - c_div dy 2,
      width = width r + dx, height = height r + dy\<rparr>"

text \<open>\<^verbatim>\<open>rect.collidepoint(px, py)\<close>: the right and the bottom edge are outside.\<close>

definition collidepoint :: "Rect \<Rightarrow> int \<times> int \<Rightarrow> bool" where
  "collidepoint r p =
     (xpos r \<le> fst p \<and> fst p < xpos r + width r \<and>
      ypos r \<le> snd p \<and> snd p < ypos r + height r)"

text \<open>\<^verbatim>\<open>setattr(rect, ('width', 'height')[axis], v)\<close> and
  \<^verbatim>\<open>setattr(rect, ('x', 'y')[axis], v)\<close>; a float is truncated.\<close>

fun set_dim :: "orientation \<Rightarrow> rat \<Rightarrow> Rect \<Rightarrow> Rect" where
  "set_dim ORIENTATION_HORIZONTAL v r = r\<lparr>width := py_int v\<rparr>"
| "set_dim ORIENTATION_VERTICAL v r = r\<lparr>height := py_int v\<rparr>"

fun set_pos :: "orientation \<Rightarrow> rat \<Rightarrow> Rect \<Rightarrow> Rect" where
  "set_pos ORIENTATION_HORIZONTAL v r = r\<lparr>xpos := py_int v\<rparr>"
| "set_pos ORIENTATION_VERTICAL v r = r\<lparr>ypos := py_int v\<rparr>"

text \<open>\<^verbatim>\<open>(rect.width, rect.height)\<close>.\<close>

definition size_of :: "Rect \<Rightarrow> int \<times> int" where
  "size_of r = (width r, height r)"

section \<open>The widget base class\<close>

text \<open>
  \<^verbatim>\<open>ScrollBar\<close> extends \<^verbatim>\<open>pygame_menu.widgets.core.Widget\<close>. Of the base class the
  scrollbar reads the attributes below. Its methods \<^verbatim>\<open>change()\<close> (which runs the
  \<^verbatim>\<open>onchange\<close> callback) and \<^verbatim>\<open>apply_update_callbacks()\<close> are recorded, in call
  order, in \<^verbatim>\<open>calls\<close>; \<^verbatim>\<open>get_rect()\<close> is a parameter of the methods that call it.
\<close>

datatype notification = Change | UpdateCallbacks

record ScrollArea =
  has_parent :: bool

record Widget =
  widget_rect :: Rect
  readonly :: bool
  visible :: bool
  keyboard_enabled :: bool
  mouse_enabled :: bool
  scrollarea :: "ScrollArea option"
  calls :: "notification list"

section \<open>\<^verbatim>\<open>ScrollBar\<close>\<close>

record ScrollBar = Widget +
  last_mouse_pos :: "int \<times> int"
  mouseover :: bool
  orientation :: orientation
  page_ctrl_length :: rat
  page_ctrl_thick :: int
  page_step :: rat
  single_step :: rat
  slider_pad :: int
  slider_position :: rat
  slider_rect :: Rect
  values_range :: "rat \<times> rat"
  scrolling :: bool



definition apply_size_changes :: "ScrollBar \<Rightarrow> ScrollBar" where
  "apply_size_changes s =
     (let ax = orientation s;
          opp = opposite ax;
          r = set_dim opp (of_int (page_ctrl_thick s))
                (set_dim ax (page_ctrl_length s) (widget_rect s));
          sr0 = \<lparr>xpos = 0, ypos = 0, width = width r, height = height r\<rparr>;
          sr1 = set_dim opp (of_int (page_ctrl_thick s)) (set_dim ax (page_step s) sr0);
          sr2 = set_pos ax (slider_position s) sr1
      in s\<lparr>widget_rect := r,
            slider_rect := inflate sr2 (- 2 * slider_pad s) (- 2 * slider_pad s)\<rparr>)"



definition get_page_step :: "ScrollBar \<Rightarrow> error + int" where
  "get_page_step s =
     (if page_ctrl_length s = 0 then Inl ZeroDivisionError
      else Inr (py_int (page_step s * (snd (values_range s) - fst (values_range s))
                          / page_ctrl_length s)))"

definition get_value :: "ScrollBar \<Rightarrow> error + int" where
  "get_value s =
     (let lo = fst (values_range s); hi = snd (values_range s)
      in if page_ctrl_length s - page_step s = 0 then Inl ZeroDivisionError
         else
           let v = lo + slider_position s * (hi - lo) / (page_ctrl_length s - page_step s);
               v1 = max lo v;
               v2 = min hi v1
           in Inr (py_int v2))"



definition set_length :: "rat \<Rightarrow> ScrollBar \<Rightarrow> error + ScrollBar" where
  "set_length v s =
     (if \<not> 0 < v then Inl AssertionError
      else
        let s1 = s\<lparr>page_ctrl_length := v\<rparr>;
            s2 = s1\<lparr>slider_position :=
                       min (slider_position s1) (page_ctrl_length s1 - page_step s1)\<rparr>
        in Inr (apply_size_changes s2))"

definition set_maximum :: "rat \<Rightarrow> ScrollBar \<Rightarrow> error + ScrollBar" where
  "set_maximum v s =
     (if \<not> v > fst (values_range s) then Inl AssertionError
      else Inr (s\<lparr>values_range := (fst (values_range s), v)\<rparr>))"

definition set_minimum :: "rat \<Rightarrow> ScrollBar \<Rightarrow> error + ScrollBar" where
  "set_minimum v s =
     (if \<not> (0 \<le> v \<and> v < snd (values_range s)) then Inl AssertionError
      else Inr (s\<lparr>values_range := (v, snd (values_range s))\<rparr>))"

definition set_orientation :: "orientation \<Rightarrow> ScrollBar \<Rightarrow> ScrollBar" where
  "set_orientation ori s = apply_size_changes (s\<lparr>orientation := ori\<rparr>)"

definition set_page_step :: "rat \<Rightarrow> ScrollBar \<Rightarrow> error + ScrollBar" where
  "set_page_step v s =
     (if \<not> 0 < v then Inl AssertionError
      else if snd (values_range s) - fst (values_range s) = 0 then Inl ZeroDivisionError
      else
        let s1 = s\<lparr>page_step := page_ctrl_length s * v
                       / (snd (values_range s) - fst (values_range s))\<rparr>;
            s2 = (if single_step s1 \<ge> page_step s1
                  then s1\<lparr>single_step := py_floordiv2 (page_step s1)\<rparr> else s1)
        in Inr (apply_size_changes s2))"


text \<open>
  The attributes \<^verbatim>\<open>__init__\<close> assigns before it calls \<^verbatim>\<open>set_page_step\<close>. \<^verbatim>\<open>w\<close> is
  the widget as \<^verbatim>\<open>Widget.__init__\<close> leaves it. The slider rectangle is \<^verbatim>\<open>None\<close> until
  \<^verbatim>\<open>set_page_step\<close> builds it, and nothing reads it before; the record holds an
  empty rectangle in between.
\<close>

definition init_fields :: "Widget \<Rightarrow> rat \<Rightarrow> rat \<times> rat \<Rightarrow> int \<Rightarrow> int \<Rightarrow> ScrollBar" where
  "init_fields w length0 values_range0 slider_pad0 page_ctrl_thick0 =
     Widget.extend w
       (ScrollBar.fields (- 1, - 1) False ORIENTATION_HORIZONTAL length0
          page_ctrl_thick0 0 20 slider_pad0 0
          \<lparr>xpos = 0, ypos = 0, width = 0, height = 0\<rparr> values_range0 False)"

text \<open>\<^verbatim>\<open>__init__\<close>: the two assertions, the attributes, the page step, the
  orientation.\<close>

definition init ::
  "Widget \<Rightarrow> rat \<Rightarrow> rat \<times> rat \<Rightarrow> orientation \<Rightarrow> int \<Rightarrow> int \<Rightarrow> error + ScrollBar" where
  "init w length0 values_range0 orientation0 slider_pad0 page_ctrl_thick0 =
     (if \<not> snd values_range0 > fst values_range0 then Inl AssertionError
      else if \<not> page_ctrl_thick0 - 2 * slider_pad0 \<ge> 2 then Inl AssertionError
      else
        let s0 = init_fields w length0 values_range0 slider_pad0 page_ctrl_thick0
        in case (if snd values_range0 - fst values_range0 > length0
                 then set_page_step length0 s0
                 else set_page_step ((snd values_range0 - fst values_range0) / 5) s0) of
             Inl e \<Rightarrow> Inl e
           | Inr s1 \<Rightarrow> Inr ((set_orientation orientation0 s1)\<lparr>scrolling := False\<rparr>))"

section \<open>\<^verbatim>\<open>ScrollBar.update\<close>\<close>

text \<open>
  The events of pygame that \<^verbatim>\<open>update\<close> tells apart, each with the attributes it
  reads. \<^verbatim>\<open>MOUSEMOTION\<close> carries \<^verbatim>\<open>rel\<close> (absent when \<^verbatim>\<open>hasattr(event, 'rel')\<close> is
  false) and \<^verbatim>\<open>pos\<close>; \<^verbatim>\<open>ACTIVEEVENT\<close> carries \<^verbatim>\<open>gain\<close>; \<^verbatim>\<open>MOUSEBUTTONDOWN\<close> carries
  \<^verbatim>\<open>button\<close> and \<^verbatim>\<open>pos\<close>.
\<close>

datatype key = K_PAGEUP | K_PAGEDOWN | K_other int






definition check_mouseover :: "Rect \<Rightarrow> int \<times> int \<Rightarrow> ScrollBar \<Rightarrow> ScrollBar" where
  "check_mouseover rect pos s =
     (if collidepoint rect pos
      then (if \<not> mouseover s then s\<lparr>mouseover := True\<rparr> else s)
      else (if mouseover s then s\<lparr>mouseover := False\<rparr> else s))"





section \<open>\<^verbatim>\<open>controls.Controller\<close>: the joystick axis predicates\<close>

definition JOY_AXIS_X :: int where "JOY_AXIS_X = 0"
definition JOY_AXIS_Y :: int where "JOY_AXIS_Y = 1"
definition JOY_DEADZONE :: rat where "JOY_DEADZONE = 1 / 2"
definition JOY_DELAY :: int where "JOY_DELAY = 300"
definition JOY_REPEAT :: int where "JOY_REPEAT = 100"

record Controller =
  joy_delay :: int
  joy_repeat :: int

definition controller_init :: Controller where
  "controller_init = \<lparr>joy_delay = JOY_DELAY, joy_repeat = JOY_REPEAT\<rparr>"

text \<open>A \<^verbatim>\<open>pygame.JOYAXISMOTION\<close> event: \<^verbatim>\<open>event.axis\<close> and \<^verbatim>\<open>event.value\<close>.\<close>

record joy_axis_motion =
  axis :: int
  axis_value :: rat

text \<open>Each predicate is a method \<^verbatim>\<open>(self, event, widget) -> bool\<close> whose body is one
  \<^verbatim>\<open>return\<close>: it assigns nothing, so the model returns the boolean alone.\<close>

definition joy_axis_x_left :: "Controller \<Rightarrow> joy_axis_motion \<Rightarrow> 'w \<Rightarrow> bool" where
  "joy_axis_x_left self ev widget = (axis ev = JOY_AXIS_X \<and> axis_value ev < - JOY_DEADZONE)"

definition joy_axis_x_right :: "Controller \<Rightarrow> joy_axis_motion \<Rightarrow> 'w \<Rightarrow> bool" where
  "joy_axis_x_right self ev widget = (axis ev = JOY_AXIS_X \<and> axis_value ev > JOY_DEADZONE)"

definition joy_axis_y_down :: "Controller \<Rightarrow> joy_axis_motion \<Rightarrow> 'w \<Rightarrow> bool" where
  "joy_axis_y_down self ev widget = (axis ev = JOY_AXIS_Y \<and> axis_value ev > JOY_DEADZONE)"

definition joy_axis_y_up :: "Controller \<Rightarrow> joy_axis_motion \<Rightarrow> 'w \<Rightarrow> bool" where
  "joy_axis_y_up self ev widget = (axis ev = JOY_AXIS_Y \<and> axis_value ev < - JOY_DEADZONE)"

section \<open>Example scrollbars\<close>

text \<open>Base-class attributes used for the examples: a visible widget that is not
  read-only, keyboard and mouse enabled, no scroll area, an empty rectangle, no
  call made yet.\<close>

definition widget0 :: Widget where
  "widget0 =
     \<lparr>widget_rect = \<lparr>xpos = 0, ypos = 0, width = 0, height = 0\<rparr>,
      readonly = False, visible = True, keyboard_enabled = True, mouse_enabled = True,
      scrollarea = None, calls = []\<rparr>"

text \<open>\<^verbatim>\<open>ScrollBar(100, (0, 10), orientation=ORIENTATION_VERTICAL)\<close>: the page step is
  20 pixels and the single step 10.\<close>

definition bar_a :: ScrollBar where
  "bar_a = projr (init widget0 100 (0, 10) ORIENTATION_VERTICAL 0 20)"

text \<open>\<^verbatim>\<open>bar_a\<close> after \<^verbatim>\<open>set_page_step(10)\<close>: the page step is the whole range, the slider
  as long as the track.\<close>

definition bar_a_full :: ScrollBar where
  "bar_a_full = projr (set_page_step 10 bar_a)"

text \<open>\<^verbatim>\<open>ScrollBar(10, (0, 4), orientation=ORIENTATION_VERTICAL)\<close> and the same after
  \<^verbatim>\<open>set_page_step(1)\<close>, whose page step is 2.5 pixels.\<close>

definition bar_b :: ScrollBar where
  "bar_b = projr (init widget0 10 (0, 4) ORIENTATION_VERTICAL 0 20)"


text \<open>\<^verbatim>\<open>ScrollBar(100, (0, 1000), orientation=ORIENTATION_VERTICAL)\<close>: the page step is
  10 pixels, the slider travels 90 pixels for 1000 value units.\<close>

definition bar_d :: ScrollBar where
  "bar_d = projr (init widget0 100 (0, 1000) ORIENTATION_VERTICAL 0 20)"

section \<open>The geometry that \<^verbatim>\<open>_scroll\<close> relies on\<close>

text \<open>
  \<^verbatim>\<open>_scroll\<close> clamps a move by the rectangle it is given and by the slider
  rectangle, not by the numbers \<^verbatim>\<open>_page_ctrl_length\<close> and \<^verbatim>\<open>_page_step\<close>. The
  rectangles hold whole pixels. \<open>in_sync\<close> says that, along the orientation, the
  given rectangle has the length of the track, the slider rectangle is the one
  \<^verbatim>\<open>_apply_size_changes\<close> builds for the position, and the position is a whole
  number; \<open>pixel_travel\<close> is the room the slider has, in whole pixels.
\<close>

definition in_sync :: "Rect \<Rightarrow> ScrollBar \<Rightarrow> bool" where
  "in_sync rect s =
     (along (orientation s) (size_of rect) = py_int (page_ctrl_length s)
      \<and> along (orientation s) (size_of (slider_rect s))
          = py_int (page_step s) - 2 * slider_pad s
      \<and> along (orientation s) (topleft (slider_rect s))
          = py_int (slider_position s) + slider_pad s
      \<and> slider_position s = of_int (py_int (slider_position s)))"

definition pixel_travel :: "ScrollBar \<Rightarrow> int" where
  "pixel_travel s = py_int (page_ctrl_length s) - py_int (page_step s)"

definition scroll_inv :: "Rect \<Rightarrow> ScrollBar \<Rightarrow> bool" where
  "scroll_inv rect s =
     (in_sync rect s \<and> 0 \<le> pixel_travel s
      \<and> 0 \<le> slider_position s \<and> slider_position s \<le> of_int (pixel_travel s))"


section \<open>The passes of the loop in \<^verbatim>\<open>update\<close>\<close>





text \<open>What one pass of the loop body does when it is neither a focus event nor a
  button release: it reports a move exactly when the position changed, and then
  it has called \<^verbatim>\<open>change()\<close> once.\<close>

definition pass_ok :: "ScrollBar \<Rightarrow> bool \<Rightarrow> ScrollBar \<Rightarrow> bool" where
  "pass_ok s u s' =
     (u = (slider_position s' \<noteq> slider_position s)
      \<and> calls s' = calls s @ (if u then [Change] else []))"

section \<open>Example events\<close>





section \<open>Construction\<close>


lemma init_Inr_D:
  assumes "init w L rng ori pad thick = Inr s"
  shows "fst rng < snd rng" and "0 < L"
    and "page_step s = L * (if snd rng - fst rng > L then L else (snd rng - fst rng) / 5)
                         / (snd rng - fst rng)"
    and "page_ctrl_length s = L" and "values_range s = rng"
  using assms
  by (auto simp: init_def init_fields_def set_page_step_def set_orientation_def
      apply_size_changes_def Let_def ScrollBar.defs Widget.defs
      split: if_splits sum.splits)



section \<open>The range setters\<close>

text \<open>
  C7, as the code has it. \<^verbatim>\<open>set_minimum(v)\<close> asserts \<^verbatim>\<open>0 <= v < max\<close> before it
  assigns anything: it fails exactly when \<^verbatim>\<open>v < 0\<close> or \<^verbatim>\<open>v >= max\<close>, and a failing
  call returns the error alone, the scrollbar staying as it was; otherwise it
  succeeds and changes the minimum to \<^verbatim>\<open>v\<close> and nothing else.
\<close>

theorem set_minimum_fails_iff:
  "(v < 0 \<or> snd (values_range s) \<le> v \<longrightarrow> set_minimum v s = Inl AssertionError)
 \<and> (0 \<le> v \<and> v < snd (values_range s) \<longrightarrow>
       set_minimum v s = Inr (s\<lparr>values_range := (v, snd (values_range s))\<rparr>))"
  by (auto simp: set_minimum_def)

theorem set_minimum_fails_iff_witness:
  "set_minimum (- 1) bar_a = Inl AssertionError
   \<and> set_minimum 10 bar_a = Inl AssertionError
   \<and> set_minimum 3 bar_a = Inr (bar_a\<lparr>values_range := (3, 10)\<rparr>)"
proof -
  have r: "snd (values_range bar_a) = 10" by code_simp
  show ?thesis
    using set_minimum_fails_iff[of "- 1" bar_a] set_minimum_fails_iff[of 10 bar_a]
      set_minimum_fails_iff[of 3 bar_a]
    by (simp add: r)
qed

text \<open>The claim as stated fails: \<^verbatim>\<open>-1\<close> is below the maximum \<^verbatim>\<open>10\<close>, and
  \<^verbatim>\<open>set_minimum(-1)\<close> is rejected.\<close>

theorem set_minimum_negative_counterexample:
  "- 1 < snd (values_range bar_a) \<and> set_minimum (- 1) bar_a = Inl AssertionError"
  by code_simp

section \<open>The joystick axis predicates\<close>

text \<open>
  C9. Each of the four analog-direction predicates is true exactly when the event
  is on the predicate's axis, the magnitude of its value exceeds \<^verbatim>\<open>JOY_DEADZONE\<close>
  and the sign is the direction's: negative for left and up, positive for right
  and down. The predicates return a boolean and nothing else: no state is changed.
\<close>

theorem joy_axis_predicates:
  "(joy_axis_x_left c e w
      = (axis e = JOY_AXIS_X \<and> \<bar>axis_value e\<bar> > JOY_DEADZONE \<and> axis_value e < 0))
 \<and> (joy_axis_x_right c e w
      = (axis e = JOY_AXIS_X \<and> \<bar>axis_value e\<bar> > JOY_DEADZONE \<and> axis_value e > 0))
 \<and> (joy_axis_y_up c e w
      = (axis e = JOY_AXIS_Y \<and> \<bar>axis_value e\<bar> > JOY_DEADZONE \<and> axis_value e < 0))
 \<and> (joy_axis_y_down c e w
      = (axis e = JOY_AXIS_Y \<and> \<bar>axis_value e\<bar> > JOY_DEADZONE \<and> axis_value e > 0))"
  unfolding joy_axis_x_left_def joy_axis_x_right_def joy_axis_y_up_def joy_axis_y_down_def
    JOY_DEADZONE_def
  by (auto simp: abs_if)

section \<open>The page step\<close>

lemma floor_half_less: "0 < (q::rat) \<Longrightarrow> of_int \<lfloor>q / 2\<rfloor> < q"
proof -
  assume "0 < q"
  have "of_int \<lfloor>q / 2\<rfloor> \<le> q / 2" by (rule of_int_floor_le)
  also have "\<dots> < q" using \<open>0 < q\<close> by simp
  finally show ?thesis .
qed

text \<open>
  C8, as the code has it. On a scrollbar with a positive length and \<^verbatim>\<open>min < max\<close>
  (every constructed scrollbar, see \<open>init_Inr_D\<close>), a successful
  \<^verbatim>\<open>set_page_step(v)\<close> stores \<^verbatim>\<open>length * v / (max - min)\<close>; if the stored single step
  is at least that, the single step becomes \<^verbatim>\<open>page_step // 2\<close>, the floor of the
  half; and afterwards the single step is strictly smaller than the page step.
\<close>

theorem set_page_step_single_step:
  assumes "set_page_step v s = Inr s'"
    and "0 < page_ctrl_length s"
    and "fst (values_range s) < snd (values_range s)"
  shows "page_step s' = page_ctrl_length s * v / (snd (values_range s) - fst (values_range s))
       \<and> (page_step s' \<le> single_step s \<longrightarrow> single_step s' = of_int \<lfloor>page_step s' / 2\<rfloor>)
       \<and> single_step s' < page_step s'"
proof -
  from assms(1) have v: "0 < v"
    by (auto simp: set_page_step_def split: if_splits)
  let ?ps = "page_ctrl_length s * v / (snd (values_range s) - fst (values_range s))"
  have pos: "0 < ?ps" using v assms(2,3) by simp
  from assms(1) have ps: "page_step s' = ?ps"
    by (auto simp: set_page_step_def apply_size_changes_def Let_def split: if_splits)
  from assms(1) have ss:
    "single_step s' = (if ?ps \<le> single_step s then py_floordiv2 ?ps else single_step s)"
    by (auto simp: set_page_step_def apply_size_changes_def Let_def split: if_splits)
  have "single_step s' < ?ps"
    using ss floor_half_less[OF pos] by (auto simp: py_floordiv2_def)
  with ps ss show ?thesis by (simp add: py_floordiv2_def)
qed

theorem set_page_step_single_step_witness:
  "map_sum id page_step (set_page_step (1 / 2) bar_a) = Inr 5
   \<and> map_sum id single_step (set_page_step (1 / 2) bar_a) = Inr 2"
proof -
  define s' where "s' = projr (set_page_step (1 / 2) bar_a)"
  have h: "set_page_step (1 / 2) bar_a = Inr s'" unfolding s'_def by code_simp
  have a: "0 < page_ctrl_length bar_a" by code_simp
  have b: "fst (values_range bar_a) < snd (values_range bar_a)" by code_simp
  have c: "page_ctrl_length bar_a = 100" "values_range bar_a = (0, 10)"
    "single_step bar_a = 10"
    by code_simp+
  have f: "\<lfloor>5 / 2 :: rat\<rfloor> = 2" by code_simp
  from set_page_step_single_step[OF h a b] show ?thesis
    unfolding h by (simp add: c f)
qed

text \<open>The claim as stated fails: with a single step of 10, \<^verbatim>\<open>set_page_step(0.5)\<close> on
  \<^verbatim>\<open>bar_a\<close> gives a page step of 5 pixels and a single step of 2, not 5 / 2.\<close>

theorem set_page_step_floor_counterexample:
  "single_step bar_a = 10
   \<and> map_sum id page_step (set_page_step (1 / 2) bar_a) = Inr 5
   \<and> map_sum id single_step (set_page_step (1 / 2) bar_a) = Inr 2
   \<and> (2 :: rat) \<noteq> 5 / 2"
  by code_simp

section \<open>\<^verbatim>\<open>set_maximum\<close> and \<^verbatim>\<open>set_minimum\<close> leave the geometry alone\<close>

text \<open>
  C5, as the code has it. A successful \<^verbatim>\<open>set_maximum\<close> or \<^verbatim>\<open>set_minimum\<close> changes
  the range bound only: the page step and the single step in pixels, the length,
  the slider position and the slider rectangle are what they were (nothing is
  re-derived or re-clamped), and \<^verbatim>\<open>min < max\<close> holds afterwards.
\<close>

theorem set_maximum_frame:
  assumes "set_maximum v s = Inr s' \<or> set_minimum v s = Inr s'"
  shows "page_step s' = page_step s \<and> single_step s' = single_step s
       \<and> page_ctrl_length s' = page_ctrl_length s
       \<and> slider_position s' = slider_position s \<and> slider_rect s' = slider_rect s
       \<and> fst (values_range s') < snd (values_range s')"
  using assms by (auto simp: set_maximum_def set_minimum_def split: if_splits)

theorem set_maximum_frame_witness:
  "set_maximum 20 bar_a = Inr (bar_a\<lparr>values_range := (0, 20)\<rparr>)
   \<and> page_step (bar_a\<lparr>values_range := (0, 20)\<rparr>) = page_step bar_a
   \<and> slider_position (bar_a\<lparr>values_range := (0, 20)\<rparr>) = slider_position bar_a
   \<and> fst (values_range (bar_a\<lparr>values_range := (0, 20)\<rparr>))
       < snd (values_range (bar_a\<lparr>values_range := (0, 20)\<rparr>))"
proof -
  have h: "set_maximum 20 bar_a = Inr (bar_a\<lparr>values_range := (0, 20)\<rparr>)"
    by code_simp
  from set_maximum_frame[OF disjI1[OF h]] h show ?thesis by simp
qed

text \<open>The claim as stated fails: \<^verbatim>\<open>bar_a\<close> has a page step of 2 value units; after
  \<^verbatim>\<open>set_maximum(20)\<close> the page step is still 20 pixels, while
  \<^verbatim>\<open>length * 2 / (20 - 0)\<close> is 10.\<close>

theorem set_maximum_page_step_counterexample:
  "get_page_step bar_a = Inr 2
   \<and> set_maximum 20 bar_a = Inr (bar_a\<lparr>values_range := (0, 20)\<rparr>)
   \<and> page_step (bar_a\<lparr>values_range := (0, 20)\<rparr>) = 20
   \<and> page_ctrl_length (bar_a\<lparr>values_range := (0, 20)\<rparr>) * 2 / (20 - 0) = 10"
  by code_simp

section \<open>\<^verbatim>\<open>get_value\<close> without a scrollable range\<close>

lemma set_page_step_bar_a_full: "set_page_step 10 bar_a = Inr bar_a_full"
  unfolding bar_a_full_def by code_simp

text \<open>
  C2 at a scrollbar the interface builds: \<^verbatim>\<open>ScrollBar(100, (0, 10))\<close> followed by
  \<^verbatim>\<open>set_page_step(10)\<close> has a page step equal to its length, and \<^verbatim>\<open>get_value()\<close>
  divides by their difference: it raises \<^verbatim>\<open>ZeroDivisionError\<close>.
\<close>

theorem get_value_no_range_fails:
  "set_page_step 10 bar_a = Inr bar_a_full
   \<and> page_ctrl_length bar_a_full = page_step bar_a_full
   \<and> get_value bar_a_full = Inl ZeroDivisionError"
  unfolding bar_a_full_def by code_simp

section \<open>Numbers and rectangles\<close>


lemma py_int_0 [simp]: "py_int 0 = 0"
  by (simp add: py_int_def)

lemma py_int_mono: "a \<le> b \<Longrightarrow> py_int a \<le> py_int b"
  unfolding py_int_def
  by (auto intro: floor_mono ceiling_mono order_trans[OF _ floor_le_ceiling]
      simp: not_le) (meson ceiling_le_zero dual_order.trans less_imp_le zero_le_floor)


lemma py_round_of_int [simp]: "py_round (of_int k) = k"
  by (simp add: py_round_def)




lemma c_div_neg_double [simp]: "c_div (- (2 * p)) 2 = - p"
  by (cases "p = 0"; cases "p < 0") (auto simp: c_div_def sgn_if)







section \<open>The constructor establishes the geometry\<close>

lemma init_bar_b: "init widget0 10 (0, 4) ORIENTATION_VERTICAL 0 20 = Inr bar_b"
  unfolding bar_b_def by code_simp

lemma apply_size_changes_in_sync:
  assumes "slider_position s = of_int (py_int (slider_position s))"
  shows "in_sync (widget_rect (apply_size_changes s)) (apply_size_changes s)"
  using assms
  by (cases "orientation s")
    (simp_all add: apply_size_changes_def Let_def in_sync_def size_of_def topleft_def inflate_def)

lemma init_fields_position [simp]: "slider_position (init_fields w L rng pad thick) = 0"
  by (simp add: init_fields_def ScrollBar.defs Widget.defs)

lemma init_Inr_E:
  assumes "init w L rng ori pad thick = Inr s"
  obtains v s1 where "set_page_step v (init_fields w L rng pad thick) = Inr s1"
    and "s = (set_orientation ori s1)\<lparr>scrolling := False\<rparr>"
  using assms unfolding init_def Let_def
  by (auto split: if_splits sum.splits)

lemma set_page_step_position:
  "set_page_step v s = Inr s' \<Longrightarrow> slider_position s' = slider_position s"
  by (auto simp: set_page_step_def apply_size_changes_def Let_def split: if_splits)

lemma init_scroll_inv:
  assumes "init w L rng ori pad thick = Inr s"
  shows "scroll_inv (widget_rect s) s"
proof -
  from init_Inr_D[OF assms] have a: "fst rng < snd rng" "0 < L"
    "page_step s = L * (if snd rng - fst rng > L then L else (snd rng - fst rng) / 5)
                         / (snd rng - fst rng)"
    "page_ctrl_length s = L" by simp_all
  have "page_step s \<le> L"
  proof (cases "snd rng - fst rng > L")
    case True
    then have "L / (snd rng - fst rng) \<le> 1" using a(2) by simp
    then have "L * (L / (snd rng - fst rng)) \<le> L * 1"
      using a(2) by (intro mult_left_mono) simp_all
    with True a(3) show ?thesis by simp
  next
    case False
    define d where "d = snd rng - fst rng"
    have "d \<noteq> 0" using a(1) by (simp add: d_def)
    then have "L * (d / 5) / d = L / 5" by (simp add: field_simps)
    then have "L * ((snd rng - fst rng) / 5) / (snd rng - fst rng) = L / 5"
      by (simp only: d_def)
    with False a(2,3) show ?thesis by simp
  qed
  then have tr: "0 \<le> pixel_travel s"
    unfolding pixel_travel_def using py_int_mono[of "page_step s" L] a(4) by simp
  from init_Inr_E[OF assms] obtain v s1
    where sp: "set_page_step v (init_fields w L rng pad thick) = Inr s1"
    and s: "s = (set_orientation ori s1)\<lparr>scrolling := False\<rparr>" by blast
  from set_page_step_position[OF sp] have p1: "slider_position s1 = 0" by simp
  have "in_sync (widget_rect (apply_size_changes (s1\<lparr>orientation := ori\<rparr>)))
          (apply_size_changes (s1\<lparr>orientation := ori\<rparr>))"
    by (rule apply_size_changes_in_sync) (simp add: p1)
  then have sy: "in_sync (widget_rect s) s"
    unfolding s set_orientation_def by (simp add: in_sync_def)
  have "slider_position s = 0"
    unfolding s set_orientation_def using p1 by (simp add: apply_size_changes_def Let_def)
  with sy tr show ?thesis by (simp add: scroll_inv_def)
qed

section \<open>The slider stays on the track\<close>





section \<open>\<^verbatim>\<open>set_value\<close> followed by \<^verbatim>\<open>get_value\<close>\<close>

lemma init_bar_d: "init widget0 100 (0, 1000) ORIENTATION_VERTICAL 0 20 = Inr bar_d"
  unfolding bar_d_def by code_simp









section \<open>\<^verbatim>\<open>update\<close>: notifications and result\<close>


lemma pass_ok_same [simp]:
  "pass_ok s False s"
  "pass_ok s False (s\<lparr>scrolling := b\<rparr>)"
  by (simp_all add: pass_ok_def)


lemma check_mouseover_frame [simp]:
  "slider_position (check_mouseover rect pos s) = slider_position s"
  "calls (check_mouseover rect pos s) = calls s"
  by (simp_all add: check_mouseover_def)













end
